theory Spec2Isabelle
  imports Main "HOL-Library.Sublist"
begin

section \<open>Python values, strings and exceptions\<close>

text \<open>
  The launcher module \<^verbatim>\<open>execute/executable_interface.py\<close> works on a
  \<^verbatim>\<open>SimpleNamespace\<close> whose attributes are dynamically typed. Only the task count
  really takes values of two Python types (an \<^verbatim>\<open>int\<close> on the serial path, the
  \<^verbatim>\<open>str\<close> read from the environment on the multi path), so it is the one
  attribute modelled by a sum of Python values. A Python \<^verbatim>\<open>str\<close> is the
  \<^typ>\<open>string\<close> of the bytes of its UTF-8 encoding, so an ASCII string is itself and
  concatenation is concatenation.
\<close>

datatype pyval = PInt int | PStr string

text \<open>Python's \<^verbatim>\<open>==\<close>: an \<^verbatim>\<open>int\<close> and a \<^verbatim>\<open>str\<close> never compare equal.\<close>

fun py_eq :: "pyval \<Rightarrow> pyval \<Rightarrow> bool" where
  "py_eq (PInt a) (PInt b) = (a = b)"
| "py_eq (PStr a) (PStr b) = (a = b)"
| "py_eq (PInt a) (PStr b) = False"
| "py_eq (PStr a) (PInt b) = False"

definition digit_char :: "nat \<Rightarrow> char" where
  "digit_char d = ''0123456789'' ! d"

fun str_nat :: "nat \<Rightarrow> string" where
  "str_nat n = (if n < 10 then [digit_char n] else str_nat (n div 10) @ [digit_char (n mod 10)])"

declare str_nat.simps [simp del]

text \<open>\<^verbatim>\<open>str(i)\<close> for a Python \<^verbatim>\<open>int\<close>.\<close>

definition str_int :: "int \<Rightarrow> string" where
  "str_int i = (if i < 0 then CHR ''-'' # str_nat (nat (- i)) else str_nat (nat i))"

text \<open>What an f-string field \<^verbatim>\<open>{x}\<close> renders: \<^verbatim>\<open>str(x)\<close>, and \<^verbatim>\<open>None\<close> as its name.\<close>

fun py_str :: "pyval \<Rightarrow> string" where
  "py_str (PInt i) = str_int i"
| "py_str (PStr s) = s"

definition fmt_str :: "string option \<Rightarrow> string" where
  "fmt_str x = (case x of None \<Rightarrow> ''None'' | Some s \<Rightarrow> s)"

definition fmt_val :: "pyval option \<Rightarrow> string" where
  "fmt_val x = (case x of None \<Rightarrow> ''None'' | Some v \<Rightarrow> py_str v)"

definition lower_char :: "char \<Rightarrow> char" where
  "lower_char c =
     (case map_of (zip ''ABCDEFGHIJKLMNOPQRSTUVWXYZ'' ''abcdefghijklmnopqrstuvwxyz'') c of
        None \<Rightarrow> c | Some d \<Rightarrow> d)"

definition upper_char :: "char \<Rightarrow> char" where
  "upper_char c =
     (case map_of (zip ''abcdefghijklmnopqrstuvwxyz'' ''ABCDEFGHIJKLMNOPQRSTUVWXYZ'') c of
        None \<Rightarrow> c | Some d \<Rightarrow> d)"

text \<open>\<^verbatim>\<open>str.isascii()\<close>.\<close>

definition isascii :: "string \<Rightarrow> bool" where
  "isascii s = list_all (\<lambda>c. (of_char c :: nat) < 128) s"

text \<open>
  \<^verbatim>\<open>str.lower()\<close>, as far as the module uses it: its result is only ever compared
  with \<^verbatim>\<open>"mpi"\<close> and \<^verbatim>\<open>"slurm"\<close>. On an ASCII string it maps the letters. A string
  with a character outside ASCII never has one of the two words as its lower-case form
  (the only such characters whose lower-case form has an ASCII letter in it are the
  Kelvin sign, which gives \<^verbatim>\<open>k\<close>, and the dotted capital I, which gives \<^verbatim>\<open>i\<close> and a
  combining dot); here its bytes outside ASCII are kept, so the comparisons come out
  the same.
\<close>

definition py_lower :: "string \<Rightarrow> string" where
  "py_lower s = map lower_char s"

text \<open>
  The exceptions that can leave the functions of the module. Only
  \<open>ExecutableInterfaceError\<close> is the module's own; the others are raised by the
  interpreter or by the standard library. An operating-system failure carries the text
  the system gave.
\<close>

datatype exn =
    ExecutableInterfaceError string
  | AttributeError
  | TypeError
  | UnboundLocalError
  | IndexError
  | UnicodeDecodeError
  | CalledProcessError "string list" int
  | OSError string

datatype level = INFO | WARN

type_synonym logmsg = "level \<times> string"

section \<open>The Configuration Object\<close>

text \<open>
  The attributes the module reads and writes. A nullable attribute is an option, with
  \<open>None\<close> for Python's \<^verbatim>\<open>None\<close>. Of \<open>multi\<close> and \<open>serial\<close> the code only ever
  takes the truth value, so an unset flag and a false one are the same \<open>False\<close>.
  The functions mutate the object in place and return it; the model returns the object
  as it stands when the function returns or raises, with the exception raised, if any.
\<close>

record exec_obj =
  exec_path :: string
  run_path :: string
  scheduler :: "string option"
  launcher :: "string option"
  multi :: bool
  serial :: bool
  task_keys :: "string list"
  ntasks :: "pyval option"
  img_path :: "string option"
  container :: "bool option"
  nprocs_flag :: "string option"
  cmd :: "string list"
  stderr :: "string option"
  stdout :: "string option"
  rc :: "int option"
  schema_path :: string

section \<open>The operating system\<close>

text \<open>
  What the module asks of its surroundings is a parameter of the model: the process
  environment, the outcome of spawning a command in a working directory, and the
  helpers of \<^verbatim>\<open>tools/fileio_interface.py\<close>, which is not among the sources
  (\<open>fileexist\<close> is taken as it is called, on the attribute's value; \<open>chdir_err\<close>
  and \<open>open_err\<close> say whether entering a directory or opening a file for writing
  fails, and with what). The interpreter's Unicode tables are a parameter as well:
  \<open>unicode_upper\<close> is \<^verbatim>\<open>str.upper()\<close> on the strings that are not ASCII.
\<close>

datatype fd = Stdout | Stderr

record child =
  writes :: "(fd \<times> string) list"
  returncode :: int

record os =
  environ :: "string \<rightharpoonup> string"
  cwd :: string
  popen :: "string \<Rightarrow> string list \<Rightarrow> string + child"
  fileexist :: "string option \<Rightarrow> bool"
  chdir_err :: "string \<Rightarrow> string option"
  open_err :: "string \<Rightarrow> string option"
  called_process_error_str :: "string list \<Rightarrow> int \<Rightarrow> string"
  unicode_upper :: "string \<Rightarrow> string"

text \<open>\<^verbatim>\<open>str.upper()\<close>: the letters of an ASCII string, the interpreter's tables otherwise.\<close>

definition py_upper :: "os \<Rightarrow> string \<Rightarrow> string" where
  "py_upper w s = (if isascii s then map upper_char s else unicode_upper w s)"

section \<open>tools/parser\_interface.py: enviro\_get\<close>

definition enviro_get :: "os \<Rightarrow> string \<Rightarrow> string option" where
  "enviro_get w envvar =
     (if environ w envvar \<noteq> None then environ w envvar else None)"

section \<open>Task-type resolution\<close>

text \<open>
  The loop of \<^verbatim>\<open>__check_exectype__\<close> over \<open>task_keys\<close>: the local \<^verbatim>\<open>ntasks\<close>
  after the loop, \<open>None\<close> when the loop never assigned it.
\<close>

fun probe_task_keys :: "os \<Rightarrow> string list \<Rightarrow> pyval option" where
  "probe_task_keys w [] = None"
| "probe_task_keys w (item # items) =
     (case enviro_get w item of
        Some v \<Rightarrow> Some (PStr v)
      | None \<Rightarrow> probe_task_keys w items)"

definition zero_tasks_msg :: string where
  "zero_tasks_msg =
     ''For parallel/multi-processor applications, the total '' @
     ''number of available tasks must be non-zero. Aborting!!!''"

text \<open>
  The tail of \<^verbatim>\<open>__check_exectype__\<close>: \<^verbatim>\<open>if exec_obj.serial: ntasks = 1\<close> and the
  assignment of the local to the attribute, which raises when the local was never bound.
\<close>

definition assign_ntasks :: "exec_obj \<Rightarrow> pyval option \<Rightarrow> exec_obj \<times> exn option" where
  "assign_ntasks exec_obj local =
     (case (if serial exec_obj then Some (PInt 1) else local) of
        None \<Rightarrow> (exec_obj, Some UnboundLocalError)
      | Some n \<Rightarrow> (exec_obj\<lparr>ntasks := Some n\<rparr>, None))"

definition check_exectype :: "os \<Rightarrow> exec_obj \<Rightarrow> exec_obj \<times> exn option" where
  "check_exectype w exec_obj0 =
     (let exec_obj = (if \<not> (multi exec_obj0 \<or> serial exec_obj0)
                      then exec_obj0\<lparr>serial := True\<rparr> else exec_obj0)
      in if multi exec_obj
         then (case probe_task_keys w (task_keys exec_obj) of
                 None \<Rightarrow> (exec_obj, Some UnboundLocalError)
               | Some v \<Rightarrow>
                   if py_eq v (PInt 0)
                   then (exec_obj, Some (ExecutableInterfaceError zero_tasks_msg))
                   else assign_ntasks exec_obj (Some v))
         else assign_ntasks exec_obj None)"

section \<open>Number-of-processors flag and command assembly\<close>

definition get_nprocs_flag :: "exec_obj \<Rightarrow> exec_obj \<times> exn option" where
  "get_nprocs_flag exec_obj =
     (case scheduler exec_obj of
        None \<Rightarrow> (exec_obj, Some AttributeError)
      | Some s \<Rightarrow>
          (let flag =
             (if py_lower s = ''mpi'' then (if multi exec_obj then Some ''-np'' else None)
              else if py_lower s = ''slurm'' then (if multi exec_obj then Some ''-n'' else None)
              else None)
           in (exec_obj\<lparr>nprocs_flag := flag\<rparr>, None)))"

definition get_cmd :: "exec_obj \<Rightarrow> exec_obj \<times> exn option" where
  "get_cmd exec_obj0 =
     (case get_nprocs_flag exec_obj0 of
        (exec_obj, Some e) \<Rightarrow> (exec_obj, Some e)
      | (exec_obj, None) \<Rightarrow>
          (let c = (case nprocs_flag exec_obj of
                      None \<Rightarrow> [exec_path exec_obj]
                    | Some f \<Rightarrow> [fmt_str (launcher exec_obj), f,
                                 fmt_val (ntasks exec_obj), exec_path exec_obj])
           in (exec_obj\<lparr>cmd := c\<rparr>, None)))"

section \<open>tools/system\_interface.py: app\_path\<close>

text \<open>\<^verbatim>\<open>bytes.rstrip()\<close> strips the ASCII white space from the end.\<close>

definition is_space_bytes :: "char \<Rightarrow> bool" where
  "is_space_bytes c = (c \<in> set [CHR 0x20, CHR 0x09, CHR 0x0A, CHR 0x0D, CHR 0x0B, CHR 0x0C])"

definition py_rstrip :: "string \<Rightarrow> string" where
  "py_rstrip s = rev (dropWhile is_space_bytes (rev s))"

text \<open>
  \<^verbatim>\<open>bytes.decode("utf-8")\<close> raises on bytes that are not well-formed UTF-8: a
  continuation byte out of place, an overlong form, a surrogate, a value beyond
  U+10FFFF. On well-formed bytes the \<^verbatim>\<open>str\<close> it returns is, in this model, the same
  bytes.
\<close>

definition cont_byte :: "nat \<Rightarrow> bool" where
  "cont_byte b = (0x80 \<le> b \<and> b \<le> 0xBF)"

definition second_of3 :: "nat \<Rightarrow> nat \<Rightarrow> bool" where
  "second_of3 a b =
     (if a = 0xE0 then 0xA0 \<le> b \<and> b \<le> 0xBF
      else if a = 0xED then 0x80 \<le> b \<and> b \<le> 0x9F
      else cont_byte b)"

definition second_of4 :: "nat \<Rightarrow> nat \<Rightarrow> bool" where
  "second_of4 a b =
     (if a = 0xF0 then 0x90 \<le> b \<and> b \<le> 0xBF
      else if a = 0xF4 then 0x80 \<le> b \<and> b \<le> 0x8F
      else cont_byte b)"

fun utf8_wellformed :: "nat list \<Rightarrow> bool" where
  "utf8_wellformed [] = True"
| "utf8_wellformed (a # bs) =
     (if a < 0x80 then utf8_wellformed bs
      else if 0xC2 \<le> a \<and> a \<le> 0xDF
      then (case bs of
              b # r \<Rightarrow> cont_byte b \<and> utf8_wellformed r
            | _ \<Rightarrow> False)
      else if 0xE0 \<le> a \<and> a \<le> 0xEF
      then (case bs of
              b # c # r \<Rightarrow> second_of3 a b \<and> cont_byte c \<and> utf8_wellformed r
            | _ \<Rightarrow> False)
      else if 0xF0 \<le> a \<and> a \<le> 0xF4
      then (case bs of
              b # c # d # r \<Rightarrow>
                second_of4 a b \<and> cont_byte c \<and> cont_byte d \<and> utf8_wellformed r
            | _ \<Rightarrow> False)
      else False)"

definition py_decode :: "string \<Rightarrow> exn + string" where
  "py_decode b = (if utf8_wellformed (map of_char b) then Inr b else Inl UnicodeDecodeError)"

text \<open>
  \<^verbatim>\<open>str.split()\<close> cuts at runs of white space, and white space for a \<^verbatim>\<open>str\<close> is
  every character for which \<^verbatim>\<open>isspace()\<close> holds: U+0009 to U+000D, U+001C to U+0020,
  U+0085, U+00A0, U+1680, U+2000 to U+200A, U+2028, U+2029, U+202F, U+205F and U+3000,
  here in their UTF-8 forms. \<open>space_len\<close> is the number of bytes of the white-space
  character a string starts with, 0 when it starts with none.
\<close>

definition unicode_spaces :: "string list" where
  "unicode_spaces =
     [[CHR 0x09], [CHR 0x0A], [CHR 0x0B], [CHR 0x0C], [CHR 0x0D],
      [CHR 0x1C], [CHR 0x1D], [CHR 0x1E], [CHR 0x1F], [CHR 0x20],
      [CHR 0xC2, CHR 0x85], [CHR 0xC2, CHR 0xA0], [CHR 0xE1, CHR 0x9A, CHR 0x80],
      [CHR 0xE2, CHR 0x80, CHR 0x80], [CHR 0xE2, CHR 0x80, CHR 0x81],
      [CHR 0xE2, CHR 0x80, CHR 0x82], [CHR 0xE2, CHR 0x80, CHR 0x83],
      [CHR 0xE2, CHR 0x80, CHR 0x84], [CHR 0xE2, CHR 0x80, CHR 0x85],
      [CHR 0xE2, CHR 0x80, CHR 0x86], [CHR 0xE2, CHR 0x80, CHR 0x87],
      [CHR 0xE2, CHR 0x80, CHR 0x88], [CHR 0xE2, CHR 0x80, CHR 0x89],
      [CHR 0xE2, CHR 0x80, CHR 0x8A], [CHR 0xE2, CHR 0x80, CHR 0xA8],
      [CHR 0xE2, CHR 0x80, CHR 0xA9], [CHR 0xE2, CHR 0x80, CHR 0xAF],
      [CHR 0xE2, CHR 0x81, CHR 0x9F], [CHR 0xE3, CHR 0x80, CHR 0x80]]"

definition space_len :: "string \<Rightarrow> nat" where
  "space_len s =
     (case find (\<lambda>sp. prefix sp s) unicode_spaces of
        None \<Rightarrow> 0
      | Some sp \<Rightarrow> length sp)"

text \<open>
  The scan of \<^verbatim>\<open>split()\<close>: \<open>k\<close> counts the bytes still to skip of the white-space
  character being passed, \<open>cur\<close> is the word read so far.
\<close>

fun split_acc :: "nat \<Rightarrow> string \<Rightarrow> string \<Rightarrow> string list" where
  "split_acc k cur [] = (if cur = [] then [] else [cur])"
| "split_acc k cur (c # cs) =
     (if 0 < k then split_acc (k - 1) cur cs
      else (case space_len (c # cs) of
              0 \<Rightarrow> split_acc 0 (cur @ [c]) cs
            | Suc n \<Rightarrow> (if cur = [] then split_acc n [] cs else cur # split_acc n [] cs)))"

definition py_split :: "string \<Rightarrow> string list" where
  "py_split s = split_acc 0 [] s"

text \<open>What \<^verbatim>\<open>communicate()\<close> returns as \<^verbatim>\<open>out\<close>: all the child wrote to standard output.\<close>

definition child_stdout :: "child \<Rightarrow> string" where
  "child_stdout ch = concat (map snd (filter (\<lambda>x. fst x = Stdout) (writes ch)))"

definition app_path :: "os \<Rightarrow> string \<Rightarrow> exn + string option" where
  "app_path w app =
     (case popen w (cwd w) [''command'', ''-V'', app] of
        Inl e \<Rightarrow> Inl (OSError e)
      | Inr proc \<Rightarrow>
          (let out = child_stdout proc
           in if length out > 0
              then (case py_decode (py_rstrip out) of
                      Inl e \<Rightarrow> Inl e
                    | Inr text \<Rightarrow>
                        (let toks = py_split text
                         in if 2 < length toks then Inr (Some (toks ! 2))
                            else Inl IndexError))
              else Inr None))"

section \<open>Launcher resolution\<close>

definition unrecognized_msg :: "os \<Rightarrow> string \<Rightarrow> string" where
  "unrecognized_msg w s =
     ''The job scheduler type '' @ py_upper w s @ '' is not recognized. Aborting!!!''"

definition no_scheduler_msg :: string where
  "no_scheduler_msg =
     ''The respective platform does not specify a scheduler; '' @
     ''all compiled executables will be assumed serial.''"

definition priv_launcher :: "os \<Rightarrow> exec_obj \<Rightarrow> exec_obj \<times> logmsg list \<times> exn option" where
  "priv_launcher w exec_obj =
     (case launcher exec_obj of
        Some l \<Rightarrow> (exec_obj, [], None)
      | None \<Rightarrow>
          (case scheduler exec_obj of
             Some s \<Rightarrow>
               if py_lower s = ''mpi''
               then (case app_path w ''mpirun'' of
                       Inl e \<Rightarrow> (exec_obj, [], Some e)
                     | Inr p \<Rightarrow> (exec_obj\<lparr>launcher := p\<rparr>, [], None))
               else if py_lower s = ''slurm''
               then (case app_path w ''srun'' of
                       Inl e \<Rightarrow> (exec_obj, [], Some e)
                     | Inr p \<Rightarrow> (exec_obj\<lparr>launcher := p\<rparr>, [], None))
               else (exec_obj, [], Some (ExecutableInterfaceError (unrecognized_msg w s)))
           | None \<Rightarrow> (exec_obj\<lparr>launcher := None\<rparr>, [(WARN, no_scheduler_msg)], None)))"

section \<open>Container resolution\<close>

text \<open>
  \<^verbatim>\<open>subprocess.run(cmd, check=True, ...)\<close>: an argument that is \<^verbatim>\<open>None\<close> is a
  \<^verbatim>\<open>TypeError\<close> of the library before anything is spawned; a child that exits
  non-zero is a \<^verbatim>\<open>CalledProcessError\<close>.
\<close>

definition subprocess_run_check :: "os \<Rightarrow> string option list \<Rightarrow> exn + child" where
  "subprocess_run_check w args =
     (case those args of
        None \<Rightarrow> Inl TypeError
      | Some argv \<Rightarrow>
          (case popen w (cwd w) argv of
             Inl e \<Rightarrow> Inl (OSError e)
           | Inr proc \<Rightarrow>
               if returncode proc \<noteq> 0
               then Inl (CalledProcessError argv (returncode proc))
               else Inr proc))"

definition no_image_msg :: "exec_obj \<Rightarrow> string" where
  "no_image_msg exec_obj =
     ''The Singularity container path '' @ fmt_str (img_path exec_obj) @
     '' does not exist. Aborting!!!''"

definition inspect_failed_msg :: "os \<Rightarrow> exec_obj \<Rightarrow> string list \<Rightarrow> int \<Rightarrow> string" where
  "inspect_failed_msg w exec_obj argv r =
     ''Singularity application check yielded the following message:'' @
     [CHR 0x0A, CHR 0x0A] @ called_process_error_str w argv r @ [CHR 0x0A, CHR 0x0A] @
     ''The Singularity container '' @ fmt_str (img_path exec_obj) @ '' will '' @
     ''not be used for the requested executable application '' @
     exec_path exec_obj @ ''.''"

text \<open>
  The two handlers of \<^verbatim>\<open>__check_sifimg__\<close>: the outer \<^verbatim>\<open>except AttributeError\<close>
  encloses the call of \<open>app_path\<close> and the inner \<^verbatim>\<open>try\<close>, whose
  \<^verbatim>\<open>except CalledProcessError\<close> encloses the inspection only. Every other exception
  leaves the function.
\<close>

fun except_attribute :: "exec_obj \<Rightarrow> exn \<Rightarrow> exec_obj \<times> logmsg list \<times> exn option" where
  "except_attribute exec_obj AttributeError = (exec_obj\<lparr>container := Some False\<rparr>, [], None)"
| "except_attribute exec_obj e = (exec_obj, [], Some e)"

fun except_called_process ::
  "os \<Rightarrow> exec_obj \<Rightarrow> exn \<Rightarrow> exec_obj \<times> logmsg list \<times> exn option" where
  "except_called_process w exec_obj (CalledProcessError argv r) =
     (exec_obj\<lparr>container := Some False\<rparr>, [(INFO, inspect_failed_msg w exec_obj argv r)], None)"
| "except_called_process w exec_obj e = except_attribute exec_obj e"

definition check_sifimg :: "os \<Rightarrow> exec_obj \<Rightarrow> exec_obj \<times> logmsg list \<times> exn option" where
  "check_sifimg w exec_obj =
     (if \<not> fileexist w (img_path exec_obj)
      then (exec_obj, [], Some (ExecutableInterfaceError (no_image_msg exec_obj)))
      else (case app_path w ''singularity'' of
              Inl e \<Rightarrow> except_attribute exec_obj e
            | Inr simgexec \<Rightarrow>
                (case subprocess_run_check w
                        [simgexec, Some ''inspect'', Some ''--quiet'', img_path exec_obj] of
                   Inl e \<Rightarrow> except_called_process w exec_obj e
                 | Inr proc \<Rightarrow> (exec_obj\<lparr>container := Some True\<rparr>, [], None))))"

section \<open>The Process Runner\<close>

text \<open>
  Files are a map from paths to contents. A handle opened by \<^verbatim>\<open>open(path, "w")\<close> is
  named by its path: opening creates or empties the file, and what is written through
  the handle is appended to it.
\<close>

type_synonym files = "string \<rightharpoonup> string"

text \<open>\<^verbatim>\<open>os.path.join\<close> of two components.\<close>

definition os_path_join :: "string \<Rightarrow> string \<Rightarrow> string" where
  "os_path_join a b =
     (if b \<noteq> [] \<and> hd b = CHR ''/'' then b
      else if a = [] \<or> last a = CHR ''/'' then a @ b
      else a @ ''/'' @ b)"

definition open_w :: "os \<Rightarrow> files \<Rightarrow> string \<Rightarrow> exn + files" where
  "open_w w fs path =
     (case open_err w path of
        Some e \<Rightarrow> Inl (OSError e)
      | None \<Rightarrow> Inr (fs(path \<mapsto> [])))"

text \<open>
  \<^verbatim>\<open>__redirect__\<close> up to its \<^verbatim>\<open>yield\<close>: the defaulted paths, the two files opened
  in the order of the \<^verbatim>\<open>with\<close> statement, and the pair of handles yielded, which is
  \<^verbatim>\<open>(stderr, stderr)\<close> in the source.
\<close>

definition redirect ::
  "os \<Rightarrow> files \<Rightarrow> exec_obj \<Rightarrow> exec_obj \<times> files \<times> logmsg list \<times> (exn + string \<times> string)" where
  "redirect w fs exec_obj0 =
     (let (o1, l1) =
            (case stderr exec_obj0 of
               None \<Rightarrow>
                 (let p = os_path_join (run_path exec_obj0) ''stderr.log''
                  in (exec_obj0\<lparr>stderr := Some p\<rparr>,
                      [(WARN, ''Setting `stderr` path to '' @ p @ ''.'')]))
             | Some p \<Rightarrow> (exec_obj0, []));
          (exec_obj, l2) =
            (case stdout o1 of
               None \<Rightarrow>
                 (let p = os_path_join (run_path o1) ''stdout.log''
                  in (o1\<lparr>stdout := Some p\<rparr>,
                      [(WARN, ''Setting `stdout` path to '' @ p @ ''.'')]))
             | Some p \<Rightarrow> (o1, []));
          stderr_path = fmt_str (stderr exec_obj);
          stdout_path = fmt_str (stdout exec_obj)
      in case open_w w fs stderr_path of
           Inl e \<Rightarrow> (exec_obj, fs, l1 @ l2, Inl e)
         | Inr fs1 \<Rightarrow>
             (case open_w w fs1 stdout_path of
                Inl e \<Rightarrow> (exec_obj, fs1, l1 @ l2, Inl e)
              | Inr fs2 \<Rightarrow> (exec_obj, fs2, l1 @ l2, Inr (stderr_path, stderr_path))))"

text \<open>One write of the child, through the handle its stream was given.\<close>

definition deliver :: "string \<Rightarrow> string \<Rightarrow> files \<Rightarrow> fd \<times> string \<Rightarrow> files" where
  "deliver stderr_h stdout_h fs wr =
     (let h = (case fst wr of Stdout \<Rightarrow> stdout_h | Stderr \<Rightarrow> stderr_h)
      in fs(h \<mapsto> (case fs h of None \<Rightarrow> snd wr | Some old \<Rightarrow> old @ snd wr)))"

definition launching_msg :: "exec_obj \<Rightarrow> string" where
  "launching_msg exec_obj =
     ''Launching executable '' @ exec_path exec_obj @ '' in path '' @ run_path exec_obj @ ''.''"

text \<open>
  \<^verbatim>\<open>__run\<close> down to the end of its \<^verbatim>\<open>with\<close> blocks: the command is assembled, the
  files are opened, the directory is entered, the child is spawned with
  \<^verbatim>\<open>stderr=stderr, stdout=stdout\<close> (the two names bound to the yielded pair) and
  waited for, and its exit code is stored in \<open>rc\<close>. The result is the exception
  raised or the child's exit code.
\<close>

definition run_child ::
  "os \<Rightarrow> files \<Rightarrow> exec_obj \<Rightarrow> exec_obj \<times> files \<times> logmsg list \<times> (exn + int)" where
  "run_child w fs exec_obj0 =
     (case get_cmd exec_obj0 of
        (o1, Some e) \<Rightarrow> (o1, fs, [], Inl e)
      | (o1, None) \<Rightarrow>
          (case redirect w fs o1 of
             (exec_obj, fs1, l1, Inl e) \<Rightarrow> (exec_obj, fs1, (INFO, launching_msg o1) # l1, Inl e)
           | (exec_obj, fs1, l1, Inr (stderr_h, stdout_h)) \<Rightarrow>
               (case chdir_err w (run_path exec_obj) of
                  Some e \<Rightarrow> (exec_obj, fs1, (INFO, launching_msg o1) # l1, Inl (OSError e))
                | None \<Rightarrow>
                    (case popen w (run_path exec_obj) (cmd exec_obj) of
                       Inl e \<Rightarrow> (exec_obj, fs1, (INFO, launching_msg o1) # l1, Inl (OSError e))
                     | Inr proc \<Rightarrow>
                         (exec_obj\<lparr>rc := Some (returncode proc)\<rparr>,
                          foldl (deliver stderr_h stdout_h) fs1 (writes proc),
                          (INFO, launching_msg o1) # l1,
                          Inr (returncode proc))))))"

definition failed_msg :: "exec_obj \<Rightarrow> int \<Rightarrow> string" where
  "failed_msg exec_obj n =
     ''Executable '' @ exec_path exec_obj @ '' failed with error code '' @ str_int n @
     ''; the error log is available at '' @ fmt_str (stderr exec_obj) @ ''. Aborting!!!''"

definition completed_msg :: "exec_obj \<Rightarrow> int \<Rightarrow> string" where
  "completed_msg exec_obj n =
     ''Executable '' @ exec_path exec_obj @ '' completed with return code '' @ str_int n @
     [CHR ''.'', CHR 0x0A] @
     ''Executable '' @ exec_path exec_obj @ '' `stderr` written to path '' @
     fmt_str (stderr exec_obj) @ [CHR 0x0A, CHR ''.''] @
     ''Executable '' @ exec_path exec_obj @ '' `stdout` written to path '' @
     fmt_str (stdout exec_obj) @ ''.''"

text \<open>
  \<^verbatim>\<open>__run\<close>: after the child has exited, \<^verbatim>\<open>exec_obj.rc\<close> holds its exit code \<open>n\<close>,
  and a non-zero one raises.
\<close>

definition priv_run ::
  "os \<Rightarrow> files \<Rightarrow> exec_obj \<Rightarrow> exec_obj \<times> files \<times> logmsg list \<times> exn option" where
  "priv_run w fs exec_obj0 =
     (case run_child w fs exec_obj0 of
        (exec_obj, fs', lg, Inl e) \<Rightarrow> (exec_obj, fs', lg, Some e)
      | (exec_obj, fs', lg, Inr n) \<Rightarrow>
          if n \<noteq> 0
          then (exec_obj, fs', lg, Some (ExecutableInterfaceError (failed_msg exec_obj n)))
          else (exec_obj, fs', lg @ [(INFO, completed_msg exec_obj n)], None))"

section \<open>Notions the properties are stated with\<close>


definition raised :: "'a \<times> 'b \<times> 'c \<times> exn option \<Rightarrow> exn option" where
  "raised r = snd (snd (snd r))"

text \<open>A non-zero integer string: decimal digits, not all of them zero.\<close>

definition nonzero_int_string :: "string \<Rightarrow> bool" where
  "nonzero_int_string s =
     (list_all (\<lambda>c. c \<in> set ''0123456789'') s \<and> list_ex (\<lambda>c. c \<noteq> CHR ''0'') s)"

section \<open>Concrete inputs\<close>

text \<open>
  A system on which nothing is installed and no variable is set, and a Configuration
  Object with nothing but the two paths; the inputs below vary them. Every string in
  them is ASCII, so \<open>unicode_upper\<close> is never consulted.
\<close>

definition os0 :: os where
  "os0 = \<lparr>environ = Map.empty, cwd = ''/home/user'',
          popen = (\<lambda>d argv. Inl ''No such file or directory''),
          fileexist = (\<lambda>p. False), chdir_err = (\<lambda>p. None), open_err = (\<lambda>p. None),
          called_process_error_str = (\<lambda>argv r. ''non-zero exit status''),
          unicode_upper = (\<lambda>s. s)\<rparr>"

definition obj0 :: exec_obj where
  "obj0 = \<lparr>exec_path = ''/opt/app/model.x'', run_path = ''/tmp/run'', scheduler = None,
           launcher = None, multi = False, serial = False, task_keys = [], ntasks = None,
           img_path = None, container = None, nprocs_flag = None, cmd = [],
           stderr = None, stdout = None, rc = None,
           schema_path = ''/opt/pyutils/execute/schema/executable.schema.yaml''\<rparr>"

text \<open>The executable writes \<^verbatim>\<open>ok\<close> to its standard output and exits 0.\<close>

definition os_ok :: os where
  "os_ok = os0\<lparr>popen := (\<lambda>d argv.
       if d = ''/tmp/run'' \<and> argv = [''/opt/app/model.x'']
       then Inr \<lparr>writes = [(Stdout, ''ok'')], returncode = 0\<rparr>
       else Inl ''No such file or directory'')\<rparr>"


definition obj_slurm :: exec_obj where
  "obj_slurm = obj0\<lparr>scheduler := Some ''slurm''\<rparr>"

definition obj_srun :: exec_obj where
  "obj_srun = obj0\<lparr>scheduler := Some ''slurm'', launcher := Some ''/usr/bin/srun''\<rparr>"

definition obj_multi :: exec_obj where
  "obj_multi = obj0\<lparr>scheduler := Some ''slurm'', multi := True,
                    task_keys := [''PBS_NP'', ''SLURM_NTASKS'']\<rparr>"

definition os_zero :: os where
  "os_zero = os0\<lparr>environ := [''SLURM_NTASKS'' \<mapsto> ''0'']\<rparr>"

definition os_four :: os where
  "os_four = os0\<lparr>environ := [''SLURM_NTASKS'' \<mapsto> ''4'']\<rparr>"

definition os_tasks :: os where
  "os_tasks = os0\<lparr>environ := [''PBS_NP'' \<mapsto> ''abc'', ''SLURM_NTASKS'' \<mapsto> ''4'']\<rparr>"

text \<open>
  The image is on disk and \<^verbatim>\<open>singularity\<close> is not installed: the query
  \<^verbatim>\<open>command -V singularity\<close> prints nothing on its standard output.
\<close>

definition os_nosing :: os where
  "os_nosing = os0\<lparr>fileexist := (\<lambda>p. p = Some ''/opt/img/model.sif''),
       popen := (\<lambda>d argv.
         if argv = [''command'', ''-V'', ''singularity'']
         then Inr \<lparr>writes = [(Stderr, ''command: singularity: not found'')], returncode = 1\<rparr>
         else Inl ''No such file or directory'')\<rparr>"

definition obj_img :: exec_obj where
  "obj_img = obj0\<lparr>scheduler := Some ''slurm'', img_path := Some ''/opt/img/model.sif''\<rparr>"

text \<open>\<^verbatim>\<open>mpirun\<close> is installed.\<close>

definition os_mpirun :: os where
  "os_mpirun = os0\<lparr>popen := (\<lambda>d argv.
       if argv = [''command'', ''-V'', ''mpirun'']
       then Inr \<lparr>writes = [(Stdout, ''mpirun is /usr/bin/mpirun'' @ [CHR 0x0A])], returncode = 0\<rparr>
       else Inl ''No such file or directory'')\<rparr>"

definition obj_bogus :: exec_obj where
  "obj_bogus = obj0\<lparr>scheduler := Some ''bogus''\<rparr>"

definition obj_MPI :: exec_obj where
  "obj_MPI = obj0\<lparr>scheduler := Some ''MPI''\<rparr>"

definition obj_preset :: exec_obj where
  "obj_preset = obj0\<lparr>scheduler := Some ''bogus'', launcher := Some ''/usr/local/bin/aprun''\<rparr>"

definition bogus_msg :: string where
  "bogus_msg = ''The job scheduler type BOGUS is not recognized. Aborting!!!''"

section \<open>What each step changes and raises\<close>



lemma get_nprocs_flag_scheduler_set:
  "scheduler exec_obj = Some s \<Longrightarrow>
     get_nprocs_flag exec_obj =
       (exec_obj\<lparr>nprocs_flag :=
          if multi exec_obj \<and> py_lower s = ''mpi'' then Some ''-np''
          else if multi exec_obj \<and> py_lower s = ''slurm'' then Some ''-n''
          else None\<rparr>, None)"
  by (simp add: get_nprocs_flag_def)

text \<open>
  Command assembly with a scheduler set: the flag is resolved afresh from the scheduler
  and \<open>multi\<close>, the command follows from the flag, and nothing else changes. The
  fields of the command are rendered as the f-strings render them.
\<close>

lemma get_cmd_scheduler_set:
  assumes "scheduler exec_obj = Some s"
    and "flag = (if multi exec_obj \<and> py_lower s = ''mpi'' then Some ''-np''
                 else if multi exec_obj \<and> py_lower s = ''slurm'' then Some ''-n''
                 else None)"
  shows "get_cmd exec_obj =
     (exec_obj\<lparr>nprocs_flag := flag,
        cmd := (case flag of
                  None \<Rightarrow> [exec_path exec_obj]
                | Some f \<Rightarrow> [fmt_str (launcher exec_obj), f, fmt_val (ntasks exec_obj),
                             exec_path exec_obj])\<rparr>, None)"
proof -
  have "get_nprocs_flag exec_obj = (exec_obj\<lparr>nprocs_flag := flag\<rparr>, None)"
    using assms by (simp add: get_nprocs_flag_def)
  then show ?thesis
    by (cases flag) (simp_all add: get_cmd_def)
qed

lemma get_cmd_slurm_serial:
  assumes "scheduler exec_obj = Some ''slurm''" and "\<not> multi exec_obj"
  shows "get_cmd exec_obj =
     (exec_obj\<lparr>nprocs_flag := None, cmd := [exec_path exec_obj]\<rparr>, None)"
  using get_cmd_scheduler_set[OF assms(1) refl] assms(2) by simp

lemma get_cmd_mpi_multi:
  assumes "scheduler exec_obj = Some ''mpi''" and "multi exec_obj"
    and "launcher exec_obj = Some l"
  shows "get_cmd exec_obj =
     (exec_obj\<lparr>nprocs_flag := Some ''-np'',
        cmd := [l, ''-np'', fmt_val (ntasks exec_obj), exec_path exec_obj]\<rparr>, None)"
proof -
  have "py_lower ''mpi'' = ''mpi''" by code_simp
  with get_cmd_scheduler_set[OF assms(1) refl] assms(2,3) show ?thesis
    by (simp add: fmt_str_def)
qed








lemma unrecognized_msg_contains: "sublist (py_upper w s) (unrecognized_msg w s)"
  unfolding unrecognized_msg_def by (rule sublist_appendI)

text \<open>
  Both names bound by \<^verbatim>\<open>__run\<close> are the stderr handle, so the child never writes to a
  different file: whenever the child ran and the two paths differ, the file at the
  stdout path is empty.
\<close>

lemma deliver_other_file:
  "p \<noteq> h \<Longrightarrow> foldl (deliver h h) fs ws p = fs p"
  by (induction ws arbitrary: fs) (auto simp: deliver_def Let_def split: fd.splits)

lemma redirect_handles:
  "redirect w fs exec_obj0 = (exec_obj, fs', lg, Inr (h1, h2)) \<Longrightarrow>
     stderr exec_obj = Some h1 \<and> h2 = h1 \<and>
     (\<forall>p. stdout exec_obj = Some p \<longrightarrow> fs' p = Some [])"
  by (auto simp: redirect_def open_w_def fmt_str_def Let_def
      split: prod.splits option.splits sum.splits if_splits)

lemma run_child_stdout_file_empty:
  assumes "run_child w fs exec_obj0 = (exec_obj, fs', lg, Inr n)"
    and "stdout exec_obj = Some pout" and "stderr exec_obj = Some perr" and "pout \<noteq> perr"
  shows "fs' pout = Some []"
  using assms unfolding run_child_def
  by (auto split: prod.splits option.splits sum.splits
      dest!: redirect_handles simp: deliver_other_file)

text \<open>
  The value probed from the environment is always a string, so the comparison with the
  integer 0 never holds: task-type resolution raises no \<open>ExecutableInterfaceError\<close> on
  any input.
\<close>

lemma probe_task_keys_str: "probe_task_keys w ks = Some x \<Longrightarrow> \<exists>v. x = PStr v"
  by (induction ks) (auto split: option.splits)

lemma check_exectype_never_rejects:
  "snd (check_exectype w exec_obj) \<noteq> Some (ExecutableInterfaceError m)"
  by (auto simp: check_exectype_def assign_ntasks_def Let_def
      split: option.splits if_splits dest!: probe_task_keys_str)

text \<open>The loop over \<open>task_keys\<close> stops at the first bound entry.\<close>

lemma probe_first_bound:
  "i < length ks \<Longrightarrow> environ w (ks ! i) = Some v \<Longrightarrow> \<forall>j<i. environ w (ks ! j) = None \<Longrightarrow>
     probe_task_keys w ks = Some (PStr v)"
proof (induction ks arbitrary: i)
  case Nil
  then show ?case by simp
next
  case (Cons k ks)
  show ?case
  proof (cases i)
    case 0
    with Cons.prems show ?thesis by (simp add: enviro_get_def)
  next
    case (Suc i')
    from Cons.prems Suc have k: "environ w k = None" by auto
    from Cons.prems Suc have "\<forall>j<i'. environ w (ks ! j) = None" by auto
    with Cons.IH[of i'] Cons.prems Suc have "probe_task_keys w ks = Some (PStr v)" by simp
    with k show ?thesis by (simp add: enviro_get_def)
  qed
qed

text \<open>
  Container resolution when the image is on disk: with the inspection tool found, the
  inspection's exit code decides, and a non-zero one is logged; with the tool not found,
  the \<^verbatim>\<open>None\<close> that \<open>app_path\<close> returns is passed on as the command's first argument.
\<close>

lemma check_sifimg_tool_found:
  assumes "fileexist w (img_path exec_obj)" and "img_path exec_obj = Some img"
    and "app_path w ''singularity'' = Inr (Some tool)"
    and "popen w (cwd w) [tool, ''inspect'', ''--quiet'', img] = Inr proc"
  shows "check_sifimg w exec_obj =
     (if returncode proc = 0 then (exec_obj\<lparr>container := Some True\<rparr>, [], None)
      else (exec_obj\<lparr>container := Some False\<rparr>,
            [(INFO, inspect_failed_msg w exec_obj [tool, ''inspect'', ''--quiet'', img]
                      (returncode proc))], None))"
  using assms by (simp add: check_sifimg_def subprocess_run_check_def)

lemma check_sifimg_tool_missing:
  assumes "fileexist w (img_path exec_obj)" and "app_path w ''singularity'' = Inr None"
  shows "check_sifimg w exec_obj = (exec_obj, [], Some TypeError)"
  using assms by (simp add: check_sifimg_def subprocess_run_check_def)

section \<open>Standard output and standard error of the child\<close>

text \<open>
  C1. The specification says: the child's standard error goes to the file opened at the stderr path
  and its standard output to a distinct file opened at the stdout path, so that after an
  executable that writes \<^verbatim>\<open>ok\<close> to its standard output and exits 0 has run in a fresh
  run directory, \<^verbatim>\<open>stdout.log\<close> under \<open>run_path\<close> contains \<^verbatim>\<open>ok\<close>.
  The code yields the stderr handle twice, so both streams of the child go to the
  stderr file. On that very run: no error is raised, \<^verbatim>\<open>stdout.log\<close> is created and
  stays empty, and \<^verbatim>\<open>ok\<close> is in \<^verbatim>\<open>stderr.log\<close>.
\<close>

theorem run_stdout_lands_in_stderr_log:
  "raised (priv_run os_ok Map.empty obj_slurm) = None \<and>
   stdout (fst (priv_run os_ok Map.empty obj_slurm)) = Some ''/tmp/run/stdout.log'' \<and>
   stderr (fst (priv_run os_ok Map.empty obj_slurm)) = Some ''/tmp/run/stderr.log'' \<and>
   fst (snd (priv_run os_ok Map.empty obj_slurm)) ''/tmp/run/stdout.log'' = Some [] \<and>
   fst (snd (priv_run os_ok Map.empty obj_slurm)) ''/tmp/run/stderr.log'' = Some ''ok''"
  by code_simp

section \<open>Task-type resolution\<close>

text \<open>
  C2. The specification says: with \<open>multi\<close> true, when every entry of \<open>task_keys\<close> is unbound, and
  when the first bound entry has the value \<^verbatim>\<open>"0"\<close>, task-type resolution fails with an
  \<open>ExecutableInterfaceError\<close> and with no other exception.
  The code compares the string read from the environment with the integer 0, which is
  never equal, and reads its local \<^verbatim>\<open>ntasks\<close> unassigned when no entry is bound. With
  \<^verbatim>\<open>SLURM_NTASKS=0\<close> resolution returns normally with \<open>ntasks\<close> the string
  \<^verbatim>\<open>"0"\<close>; with nothing bound it raises \<open>UnboundLocalError\<close>.
\<close>

theorem check_exectype_zero_tasks_not_rejected:
  "check_exectype os_zero obj_multi = (obj_multi\<lparr>ntasks := Some (PStr ''0'')\<rparr>, None) \<and>
   check_exectype os0 obj_multi = (obj_multi, Some UnboundLocalError)"
  by code_simp

text \<open>
  C6. The specification says: with \<open>multi\<close> true and at least one entry of \<open>task_keys\<close> bound to a
  non-zero integer string, \<open>ntasks\<close> (an int) is the first such bound value in the order
  of \<open>task_keys\<close>.
  The loop takes the first entry that is bound at all and looks no further: with
  \<^verbatim>\<open>PBS_NP=abc\<close> before \<^verbatim>\<open>SLURM_NTASKS=4\<close> the task count is \<^verbatim>\<open>abc\<close>. And when
  \<open>serial\<close> is true as well, the task count is 1 whatever the environment holds.
\<close>

theorem ntasks_first_nonzero_counterexample:
  "multi obj_multi \<and>
   environ os_tasks (task_keys obj_multi ! 0) = Some ''abc'' \<and> \<not> nonzero_int_string ''abc'' \<and>
   environ os_tasks (task_keys obj_multi ! 1) = Some ''4'' \<and> nonzero_int_string ''4'' \<and>
   check_exectype os_tasks obj_multi = (obj_multi\<lparr>ntasks := Some (PStr ''abc'')\<rparr>, None) \<and>
   environ os_four (task_keys obj_multi ! 0) = None \<and>
   environ os_four (task_keys obj_multi ! 1) = Some ''4'' \<and>
   check_exectype os_four (obj_multi\<lparr>serial := True\<rparr>) =
     (obj_multi\<lparr>serial := True, ntasks := Some (PInt 1)\<rparr>, None)"
  by code_simp

text \<open>
  C6, as the code has it: with \<open>multi\<close> true, when the first entry of \<open>task_keys\<close>
  that is bound in the environment holds a non-zero integer string, task-type resolution
  raises nothing, changes no other attribute, and sets \<open>ntasks\<close>: to 1 when \<open>serial\<close>
  is true as well, and otherwise to a value whose text is that string.
\<close>

theorem ntasks_first_bound:
  assumes "multi exec_obj0"
    and "i < length (task_keys exec_obj0)"
    and "environ w (task_keys exec_obj0 ! i) = Some v"
    and "\<forall>j<i. environ w (task_keys exec_obj0 ! j) = None"
    and "nonzero_int_string v"
  shows "\<exists>n. check_exectype w exec_obj0 = (exec_obj0\<lparr>ntasks := Some n\<rparr>, None) \<and>
     (if serial exec_obj0 then n = PInt 1 else py_str n = v)"
proof -
  have probe: "probe_task_keys w (task_keys exec_obj0) = Some (PStr v)"
    using assms(2-4) by (rule probe_first_bound)
  show ?thesis
  proof (cases "serial exec_obj0")
    case True
    with assms(1) probe
    have "check_exectype w exec_obj0 = (exec_obj0\<lparr>ntasks := Some (PInt 1)\<rparr>, None)"
      by (simp add: check_exectype_def assign_ntasks_def)
    with True show ?thesis by (intro exI[of _ "PInt 1"]) simp
  next
    case False
    with assms(1) probe
    have "check_exectype w exec_obj0 = (exec_obj0\<lparr>ntasks := Some (PStr v)\<rparr>, None)"
      by (simp add: check_exectype_def assign_ntasks_def)
    with False show ?thesis by (intro exI[of _ "PStr v"]) simp
  qed
qed

theorem ntasks_first_bound_witness:
  "multi obj_multi \<and> \<not> serial obj_multi \<and> 1 < length (task_keys obj_multi) \<and>
   environ os_four (task_keys obj_multi ! 1) = Some ''4'' \<and>
   environ os_four (task_keys obj_multi ! 0) = None \<and> nonzero_int_string ''4'' \<and>
   snd (check_exectype os_four obj_multi) = None \<and>
   fmt_val (ntasks (fst (check_exectype os_four obj_multi))) = ''4'' \<and>
   serial (obj_multi\<lparr>serial := True\<rparr>) \<and>
   snd (check_exectype os_four (obj_multi\<lparr>serial := True\<rparr>)) = None \<and>
   ntasks (fst (check_exectype os_four (obj_multi\<lparr>serial := True\<rparr>))) = Some (PInt 1)"
proof -
  have h: "multi obj_multi" "\<not> serial obj_multi" "1 < length (task_keys obj_multi)"
    "environ os_four (task_keys obj_multi ! 1) = Some ''4''"
    "environ os_four (task_keys obj_multi ! 0) = None" "nonzero_int_string ''4''"
    by code_simp+
  from h(5) have first: "\<forall>j<1. environ os_four (task_keys obj_multi ! j) = None"
    by simp
  from ntasks_first_bound[OF h(1) h(3) h(4) first h(6)] h(2)
  obtain n where "check_exectype os_four obj_multi = (obj_multi\<lparr>ntasks := Some n\<rparr>, None)"
    and "py_str n = ''4''"
    by auto
  then have parallel: "snd (check_exectype os_four obj_multi) = None"
    "fmt_val (ntasks (fst (check_exectype os_four obj_multi))) = ''4''"
    by (simp_all add: fmt_val_def)
  let ?both = "obj_multi\<lparr>serial := True\<rparr>"
  have s: "multi ?both" "1 < length (task_keys ?both)"
    "environ os_four (task_keys ?both ! 1) = Some ''4''"
    "\<forall>j<1. environ os_four (task_keys ?both ! j) = None" "serial ?both"
    using h by simp_all
  from ntasks_first_bound[OF s(1) s(2) s(3) s(4) h(6)] s(5)
  have "check_exectype os_four ?both = (?both\<lparr>ntasks := Some (PInt 1)\<rparr>, None)"
    by auto
  then have both: "snd (check_exectype os_four ?both) = None"
    "ntasks (fst (check_exectype os_four ?both)) = Some (PInt 1)"
    by simp_all
  from h parallel s(5) both show ?thesis by simp
qed

section \<open>The Process Runner's error\<close>



section \<open>Number-of-processors flag and command assembly\<close>

text \<open>
  C4. The specification says: \<open>nprocs_flag\<close> becomes \<^verbatim>\<open>-np\<close> for scheduler \<^verbatim>\<open>mpi\<close> with \<open>multi\<close>,
  \<^verbatim>\<open>-n\<close> for \<^verbatim>\<open>slurm\<close> with \<open>multi\<close>, and null in every other case, also when the
  scheduler is null.
  With a scheduler set this is what \<open>get_nprocs_flag_scheduler_set\<close> shows. With the
  scheduler null the code calls \<^verbatim>\<open>.lower()\<close> on \<^verbatim>\<open>None\<close>: flag resolution raises
  \<open>AttributeError\<close> and assigns nothing.
\<close>

theorem get_nprocs_flag_null_scheduler_raises:
  "scheduler obj0 = None \<and> get_nprocs_flag obj0 = (obj0, Some AttributeError) \<and>
   get_nprocs_flag (obj0\<lparr>multi := True\<rparr>) = (obj0\<lparr>multi := True\<rparr>, Some AttributeError)"
  by code_simp

text \<open>
  C5. The specification says: command assembly produces \<open>[exec_path]\<close> when the flag
  is null and \<open>[launcher, nprocs_flag, str(ntasks), exec_path]\<close> otherwise, for every
  resolved Configuration Object.
  With a scheduler set this is what \<open>get_cmd_scheduler_set\<close> shows. With the scheduler
  null, the object that launcher resolution lets through with a warning, assembly starts
  by resolving the flag and raises \<open>AttributeError\<close> there: no command is assembled.
\<close>

theorem get_cmd_null_scheduler_raises:
  "scheduler obj0 = None \<and>
   priv_launcher os0 obj0 = (obj0, [(WARN, no_scheduler_msg)], None) \<and>
   get_cmd obj0 = (obj0, Some AttributeError)"
  by code_simp

section \<open>Container resolution\<close>

text \<open>
  C7. The specification says: with the image on disk, container resolution never raises; with the
  inspection tool found the inspection decides (a failure is logged, \<open>container\<close> is
  false), and with the tool not located \<open>container\<close> is set to false silently.
  The first part is \<open>check_sifimg_tool_found\<close>. With the tool not located,
  \<open>app_path\<close> returns \<^verbatim>\<open>None\<close> and raises nothing, so the handler for
  \<open>AttributeError\<close> is not entered; the \<^verbatim>\<open>None\<close> becomes the first argument of the
  inspection command, and \<^verbatim>\<open>subprocess.run\<close> raises a \<open>TypeError\<close> that no handler
  catches. \<open>container\<close> is not assigned.
\<close>

theorem check_sifimg_missing_tool_raises:
  "fileexist os_nosing (img_path obj_img) \<and> app_path os_nosing ''singularity'' = Inr None \<and>
   check_sifimg os_nosing obj_img = (obj_img, [], Some TypeError)"
  by code_simp

section \<open>Launcher resolution\<close>

text \<open>
  C8. The specification says: with the launcher unset and a scheduler that is neither \<^verbatim>\<open>mpi\<close> nor
  \<^verbatim>\<open>slurm\<close>, launcher resolution raises an \<open>ExecutableInterfaceError\<close> whose message
  contains the scheduler name as supplied.
  The message carries the name in upper case: for \<^verbatim>\<open>bogus\<close> it contains \<^verbatim>\<open>BOGUS\<close> and
  not \<^verbatim>\<open>bogus\<close>. And the name is compared in lower case: \<^verbatim>\<open>MPI\<close> is recognized.
\<close>

theorem launcher_bogus_counterexample:
  "launcher obj_bogus = None \<and> scheduler obj_bogus = Some ''bogus'' \<and>
   priv_launcher os0 obj_bogus = (obj_bogus, [], Some (ExecutableInterfaceError bogus_msg)) \<and>
   \<not> sublist ''bogus'' bogus_msg \<and>
   launcher obj_MPI = None \<and> scheduler obj_MPI = Some ''MPI'' \<and>
   priv_launcher os_mpirun obj_MPI = (obj_MPI\<lparr>launcher := Some ''/usr/bin/mpirun''\<rparr>, [], None)"
  by code_simp

text \<open>
  C8, as the code has it: with the launcher unset and a scheduler whose lower-case form
  is neither \<^verbatim>\<open>mpi\<close> nor \<^verbatim>\<open>slurm\<close>, launcher resolution raises an
  \<open>ExecutableInterfaceError\<close> whose message contains the scheduler name in upper case;
  the object is unchanged and nothing is logged.
\<close>

theorem launcher_unrecognized:
  assumes "launcher exec_obj = None" and "scheduler exec_obj = Some s"
    and "py_lower s \<noteq> ''mpi''" and "py_lower s \<noteq> ''slurm''"
  shows "\<exists>msg. priv_launcher w exec_obj = (exec_obj, [], Some (ExecutableInterfaceError msg)) \<and>
     sublist (py_upper w s) msg"
proof -
  have "priv_launcher w exec_obj =
          (exec_obj, [], Some (ExecutableInterfaceError (unrecognized_msg w s)))"
    using assms by (simp add: priv_launcher_def)
  then show ?thesis
    using unrecognized_msg_contains by blast
qed

theorem launcher_unrecognized_witness:
  "launcher obj_bogus = None \<and> scheduler obj_bogus = Some ''bogus'' \<and>
   py_lower ''bogus'' \<noteq> ''mpi'' \<and> py_lower ''bogus'' \<noteq> ''slurm'' \<and>
   (\<exists>msg. priv_launcher os0 obj_bogus = (obj_bogus, [], Some (ExecutableInterfaceError msg)) \<and>
      sublist ''BOGUS'' msg)"
proof -
  have h: "launcher obj_bogus = None" "scheduler obj_bogus = Some ''bogus''"
    "py_lower ''bogus'' \<noteq> ''mpi''" "py_lower ''bogus'' \<noteq> ''slurm''"
    by code_simp+
  have u: "py_upper os0 ''bogus'' = ''BOGUS''"
    by code_simp
  from launcher_unrecognized[OF h, of os0] u h show ?thesis by simp
qed

text \<open>
  C9. When the launcher is already set, launcher resolution raises nothing, logs nothing
  and returns the Configuration Object with every field as it was, whatever the
  scheduler is.
\<close>

theorem launcher_set_noop:
  "launcher exec_obj = Some l \<Longrightarrow> priv_launcher w exec_obj = (exec_obj, [], None)"
  by (simp add: priv_launcher_def)

theorem launcher_set_noop_witness:
  "launcher obj_preset = Some ''/usr/local/bin/aprun'' \<and> scheduler obj_preset = Some ''bogus'' \<and>
   priv_launcher os0 obj_preset = (obj_preset, [], None) \<and>
   launcher (obj_srun\<lparr>scheduler := None\<rparr>) = Some ''/usr/bin/srun'' \<and>
   priv_launcher os0 (obj_srun\<lparr>scheduler := None\<rparr>) = (obj_srun\<lparr>scheduler := None\<rparr>, [], None)"
proof -
  have h: "launcher obj_preset = Some ''/usr/local/bin/aprun''"
    and s: "scheduler obj_preset = Some ''bogus''"
    and h': "launcher (obj_srun\<lparr>scheduler := None\<rparr>) = Some ''/usr/bin/srun''"
    by code_simp+
  from launcher_set_noop[OF h, of os0] launcher_set_noop[OF h', of os0] h s h'
  show ?thesis by simp
qed

end
